theory Spec2Isabelle
  imports Main "HOL-Library.Word" "HOL-Library.Char_ord" "HOL-Library.List_Lexorder"
begin

section \<open>Values, option keys and errors\<close>

text \<open>
  Go's \<open>int\<close> is taken at 64 bits: \<open>*\<close> wraps around, and the comparisons of the source
  are the signed ones (\<open><s\<close>, \<open>\<le>s\<close>).
\<close>

type_synonym go_int = "64 word"

text \<open>
  Handles of the objects an option can carry: a cookie jar is either one made by
  \<open>cookiejar.New(nil)\<close> or one supplied by the caller; function values are named by a number.
\<close>

datatype jar = DefaultJar | UserJar nat

text \<open>
  An option value is an \<open>interface{}\<close>: the dynamic types the source asserts on each have a
  constructor, \<open>VOther\<close> stands for a value of any other dynamic type (a float, a nil, ...).
\<close>

datatype val =
    VInt go_int
  | VBool bool
  | VString string
  | VJar jar
  | VRedirectPolicy nat
  | VProxyFunc nat
  | VOther nat

text \<open>
  Modelled from the spec: the error type \<open>Error\<close> (fields \<open>Code\<close>, \<open>Message\<close>) and the code
  \<open>ERR_REDIRECT_POLICY\<close> are declared outside the given sources; the code is kept symbolic.
\<close>

datatype err_code = ERR_REDIRECT_POLICY

text \<open>
  A Go \<open>error\<close>: made by \<open>fmt.Errorf\<close>, an \<open>&Error{Code, Message}\<close>, or one returned by
  the standard library.
\<close>

datatype error = Errorf string | Error err_code string | LibError string

text \<open>The two run-time panics the modelled code can raise.\<close>

datatype panic = IndexOutOfRange | UnlockOfUnlockedMutex

text \<open>
  A Go map is a finite partial function, or nil. Reading a nil map finds nothing and ranging
  over it visits nothing: \<open>entries\<close> gives the bindings in both cases.
\<close>

type_synonym ('k, 'v) gomap = "('k \<rightharpoonup> 'v) option"

definition entries :: "('k, 'v) gomap \<Rightarrow> ('k \<rightharpoonup> 'v)" where
  "entries m = (case m of None \<Rightarrow> Map.empty | Some f \<Rightarrow> f)"

text \<open>The constant block of the source: \<open>iota\<close> counts the lines from \<open>VERSION\<close> (0).\<close>

definition PROXY_HTTP :: go_int where "PROXY_HTTP = 1"
definition PROXY_SOCKS4 :: go_int where "PROXY_SOCKS4 = 2"
definition PROXY_SOCKS5 :: go_int where "PROXY_SOCKS5 = 3"
definition PROXY_SOCKS4A :: go_int where "PROXY_SOCKS4A = 4"
definition OPT_AUTOREFERER :: go_int where "OPT_AUTOREFERER = 5"
definition OPT_FOLLOWLOCATION :: go_int where "OPT_FOLLOWLOCATION = 6"
definition OPT_CONNECTTIMEOUT :: go_int where "OPT_CONNECTTIMEOUT = 7"
definition OPT_CONNECTTIMEOUT_MS :: go_int where "OPT_CONNECTTIMEOUT_MS = 8"
definition OPT_MAXREDIRS :: go_int where "OPT_MAXREDIRS = 9"
definition OPT_PROXYTYPE :: go_int where "OPT_PROXYTYPE = 10"
definition OPT_TIMEOUT :: go_int where "OPT_TIMEOUT = 11"
definition OPT_TIMEOUT_MS :: go_int where "OPT_TIMEOUT_MS = 12"
definition OPT_COOKIEJAR :: go_int where "OPT_COOKIEJAR = 13"
definition OPT_INTERFACE :: go_int where "OPT_INTERFACE = 14"
definition OPT_PROXY :: go_int where "OPT_PROXY = 15"
definition OPT_REFERER :: go_int where "OPT_REFERER = 16"
definition OPT_USERAGENT :: go_int where "OPT_USERAGENT = 17"
definition OPT_REDIRECT_POLICY :: go_int where "OPT_REDIRECT_POLICY = 18"
definition OPT_PROXY_FUNC :: go_int where "OPT_PROXY_FUNC = 19"

lemmas opt_defs =
  PROXY_HTTP_def PROXY_SOCKS4_def PROXY_SOCKS5_def PROXY_SOCKS4A_def
  OPT_AUTOREFERER_def OPT_FOLLOWLOCATION_def OPT_CONNECTTIMEOUT_def
  OPT_CONNECTTIMEOUT_MS_def OPT_MAXREDIRS_def OPT_PROXYTYPE_def OPT_TIMEOUT_def
  OPT_TIMEOUT_MS_def OPT_COOKIEJAR_def OPT_INTERFACE_def OPT_PROXY_def OPT_REFERER_def
  OPT_USERAGENT_def OPT_REDIRECT_POLICY_def OPT_PROXY_FUNC_def

type_synonym options = "(go_int, val) gomap"
type_synonym headers = "(string, string) gomap"

definition defaultOptions :: "go_int \<rightharpoonup> val" where
  "defaultOptions =
     [OPT_FOLLOWLOCATION \<mapsto> VBool True,
      OPT_MAXREDIRS \<mapsto> VInt 10,
      OPT_AUTOREFERER \<mapsto> VBool True,
      OPT_USERAGENT \<mapsto> VString [],
      OPT_COOKIEJAR \<mapsto> VBool True]"

definition transportOptions :: "go_int list" where
  "transportOptions =
     [OPT_CONNECTTIMEOUT, OPT_CONNECTTIMEOUT_MS, OPT_PROXYTYPE, OPT_TIMEOUT,
      OPT_TIMEOUT_MS, OPT_INTERFACE, OPT_PROXY, OPT_PROXY_FUNC]"

definition jarOptions :: "go_int list" where
  "jarOptions = [OPT_COOKIEJAR]"

section \<open>The helpers of the utility file\<close>

text \<open>
  \<open>hasOption\<close>: the loop returns true at the first element that differs from \<open>opt\<close>.
\<close>

fun hasOption :: "go_int \<Rightarrow> go_int list \<Rightarrow> bool" where
  "hasOption opt [] = False"
| "hasOption opt (v # vs) = (if opt \<noteq> v then True else hasOption opt vs)"

text \<open>
  \<open>mergeOptions\<close> and \<open>mergeHeaders\<close>: the outer loop takes the layers in order; the inner
  loop stores every binding of the layer into \<open>merged\<close>, which is \<open>merged ++ layer\<close> (the keys
  of one map are distinct, so the order of the inner range does not matter).
\<close>

definition mergeOptions :: "options list \<Rightarrow> (go_int \<rightharpoonup> val)" where
  "mergeOptions layers = foldl (\<lambda>merged piece. merged ++ entries piece) Map.empty layers"

definition mergeHeaders :: "headers list \<Rightarrow> (string \<rightharpoonup> string)" where
  "mergeHeaders layers = foldl (\<lambda>merged piece. merged ++ entries piece) Map.empty layers"

text \<open>
  \<open>strings.Contains\<close> and \<open>strings.HasSuffix\<close> of the standard library, on byte strings.
\<close>

fun strings_Contains :: "string \<Rightarrow> string \<Rightarrow> bool" where
  "strings_Contains [] sub = (sub = [])"
| "strings_Contains (c # cs) sub =
     (take (length sub) (c # cs) = sub \<or> strings_Contains cs sub)"

definition strings_HasSuffix :: "string \<Rightarrow> string \<Rightarrow> bool" where
  "strings_HasSuffix s suf =
     (length suf \<le> length s \<and> drop (length s - length suf) s = suf)"

text \<open>
  \<open>url.Values\<close> is a map from a name to a list of values. Go ranges over a map in an
  unspecified order, and \<open>checkParamFile\<close> and \<open>PostMultipart\<close> return or panic in the middle
  of the range: the association list gives the bindings in the order the range visits them
  (its names are distinct). \<open>len(params) == 0\<close> is \<open>params = []\<close>.
\<close>

type_synonym url_Values = "(string \<times> string list) list"

text \<open>
  \<open>url.QueryEscape\<close> and \<open>Values.Encode\<close> of the standard library: letters, digits and
  \<open>-_.~\<close> stay, a space becomes \<open>+\<close>, every other byte becomes \<open>%XX\<close>; the names are taken in
  sorted order, each value gives \<open>name=value\<close>, and the pairs are joined by \<open>&\<close>.
\<close>

definition shouldEscape :: "char \<Rightarrow> bool" where
  "shouldEscape c =
     (\<not> ((CHR ''a'' \<le> c \<and> c \<le> CHR ''z'') \<or> (CHR ''A'' \<le> c \<and> c \<le> CHR ''Z'') \<or>
         (CHR ''0'' \<le> c \<and> c \<le> CHR ''9'') \<or>
         c = CHR ''-'' \<or> c = CHR ''_'' \<or> c = CHR ''.'' \<or> c = CHR ''~''))"

definition upperhex :: "nat \<Rightarrow> char" where
  "upperhex d = ''0123456789ABCDEF'' ! (d mod 16)"

definition escapeByte :: "char \<Rightarrow> string" where
  "escapeByte c =
     (if c = CHR '' '' then ''+''
      else if shouldEscape c
        then [CHR ''%'', upperhex ((of_char c :: nat) div 16), upperhex (of_char c)]
      else [c])"

definition QueryEscape :: "string \<Rightarrow> string" where
  "QueryEscape s = concat (map escapeByte s)"

fun joinAmp :: "string list \<Rightarrow> string" where
  "joinAmp [] = []"
| "joinAmp [p] = p"
| "joinAmp (p # q # ps) = p @ ''&'' @ joinAmp (q # ps)"

definition Encode :: "url_Values \<Rightarrow> string" where
  "Encode v =
     joinAmp (concat (map (\<lambda>(k, vs). map (\<lambda>x. QueryEscape k @ ''='' @ QueryEscape x) vs)
       (sort_key fst v)))"

text \<open>\<open>addQuery\<close>.\<close>

definition addQuery :: "string \<Rightarrow> url_Values \<Rightarrow> string" where
  "addQuery url params =
     (if params = [] then url
      else
        let url1 = (if \<not> strings_Contains url ''?'' then url @ ''?'' else url);
            url2 = (if \<not> strings_HasSuffix url1 ''?'' \<and> \<not> strings_HasSuffix url1 ''&''
                    then url1 @ ''&'' else url1)
        in url2 @ Encode params)"

text \<open>
  \<open>checkParamFile\<close>: \<open>paramName[0]\<close> on an empty name is an index out of range, a run-time
  panic.
\<close>

fun checkParamFile :: "url_Values \<Rightarrow> panic + bool" where
  "checkParamFile [] = Inr False"
| "checkParamFile ((paramName, vs) # rest) =
     (case paramName of
        [] \<Rightarrow> Inl IndexOutOfRange
      | c # cs \<Rightarrow> if c = CHR ''@'' then Inr True else checkParamFile rest)"

section \<open>Requests, transports and the collaborators\<close>

type_synonym cookie = "string \<times> string"

text \<open>
  The multipart writer is the list of the parts written so far: a form field (name, value) or
  a form file (field name, file name, content).
\<close>

datatype part = FormField string string | FormFile string string string

datatype body = NoBody | StringBody string | MultipartBody string "part list"

text \<open>
  An \<open>http.Request\<close>. Header names are taken in canonical form (\<open>Header.Set\<close> canonicalises
  them), so that storing is a map update; the cookies \<open>AddCookie\<close> attaches are kept as a list.
\<close>

record request =
  Method :: string
  URL :: string
  Header :: "string \<rightharpoonup> string"
  Body :: body
  Cookie :: "cookie list"

text \<open>
  What \<open>transport.Proxy\<close> is set to: nothing, \<open>http.ProxyURL\<close> of a parsed URL, or the
  closure around the caller's resolver function.
\<close>

datatype proxy = NoProxy | ProxyURL string | ProxyFunc nat

text \<open>
  The transport \<open>prepareTransport\<close> builds: the two variables its \<open>Dial\<close> closure captures,
  and the proxy.
\<close>

record transport =
  connectTimeoutMS :: go_int
  timeoutMS :: go_int
  Proxy :: proxy



text \<open>
  The redirect policy \<open>prepareRedirect\<close> returns: the caller's function, or the closure over
  \<open>followlocation\<close> and \<open>maxredirs\<close>.
\<close>

datatype redirect = Override nat | Synthesized bool go_int

text \<open>
  The \<open>http.Client\<close> that \<open>Do\<close> assembles and the request it issues; \<open>SetCookies\<close> are the
  cookies handed to the jar before the call.
\<close>

record http_call =
  Transport :: transport
  CheckRedirect :: redirect
  Jar :: "jar option"
  Request :: request
  SetCookies :: "cookie list"

text \<open>The thin wrapper \<open>Response\<close> around a (possibly nil) \<open>*http.Response\<close>.\<close>

datatype 'r Response = Response "'r option"

text \<open>
  The standard library and the world behind it, as parameters: parsing a URL, whether
  \<open>http.NewRequest\<close> fails, \<open>cookiejar.New\<close>, the network call, opening a file (an opened file
  is what copying it yields: a read error or the content), \<open>filepath.Base\<close>, the boundary
  the multipart writer draws, and closing the writer.
\<close>

record 'r env =
  url_Parse :: "string \<Rightarrow> error + string"
  http_NewRequest :: "string \<Rightarrow> string \<Rightarrow> error option"
  cookiejar_New :: "error + jar"
  httpClient_Do :: "http_call \<Rightarrow> 'r option \<times> error option"
  os_Open :: "string \<Rightarrow> error + (error + string)"
  filepath_Base :: "string \<Rightarrow> string"
  Boundary :: string
  writer_Close :: "part list \<Rightarrow> error option"

section \<open>The builders\<close>

text \<open>
  \<open>prepareRequest\<close>: a referer or user agent that is not a string is skipped (the type
  assertion has no else branch); then every header of the merged map is stored.
\<close>

definition prepareRequest ::
  "'r env \<Rightarrow> string \<Rightarrow> string \<Rightarrow> (string \<rightharpoonup> string) \<Rightarrow> body \<Rightarrow> (go_int \<rightharpoonup> val)
     \<Rightarrow> error + request" where
  "prepareRequest env method url hdrs bdy options =
     (case http_NewRequest env method url of
        Some err \<Rightarrow> Inl err
      | None \<Rightarrow>
          let req = \<lparr>Method = method, URL = url, Header = Map.empty, Body = bdy, Cookie = []\<rparr>;
              req1 = (case options OPT_REFERER of
                        Some (VString refererStr) \<Rightarrow>
                          req\<lparr>Header := (Header req)(''Referer'' \<mapsto> refererStr)\<rparr>
                      | _ \<Rightarrow> req);
              req2 = (case options OPT_USERAGENT of
                        Some (VString useragentStr) \<Rightarrow>
                          req1\<lparr>Header := (Header req1)(''User-Agent'' \<mapsto> useragentStr)\<rparr>
                      | _ \<Rightarrow> req1)
          in Inr (req2\<lparr>Header := Header req2 ++ hdrs\<rparr>))"

text \<open>
  \<open>prepareTransport\<close>, in the three blocks of the source: the connect timeout, the overall
  timeout (both in milliseconds, \<open>* 1000\<close> wraps around), and the proxy.
\<close>

definition connectTimeoutOf :: "(go_int \<rightharpoonup> val) \<Rightarrow> error + go_int" where
  "connectTimeoutOf options =
     (case options OPT_CONNECTTIMEOUT_MS of
        Some v \<Rightarrow>
          (case v of
             VInt n \<Rightarrow> Inr n
           | _ \<Rightarrow> Inl (Errorf ''OPT_CONNECTTIMEOUT_MS must be int''))
      | None \<Rightarrow>
          (case options OPT_CONNECTTIMEOUT of
             Some v \<Rightarrow>
               (case v of
                  VInt connectTimeout \<Rightarrow> Inr (connectTimeout * 1000)
                | _ \<Rightarrow> Inl (Errorf ''OPT_CONNECTTIMEOUT must be int''))
           | None \<Rightarrow> Inr 0))"

definition timeoutOf :: "(go_int \<rightharpoonup> val) \<Rightarrow> error + go_int" where
  "timeoutOf options =
     (case options OPT_TIMEOUT_MS of
        Some v \<Rightarrow>
          (case v of
             VInt n \<Rightarrow> Inr n
           | _ \<Rightarrow> Inl (Errorf ''OPT_TIMEOUT_MS must be int''))
      | None \<Rightarrow>
          (case options OPT_TIMEOUT of
             Some v \<Rightarrow>
               (case v of
                  VInt timeout \<Rightarrow> Inr (timeout * 1000)
                | _ \<Rightarrow> Inl (Errorf ''OPT_TIMEOUT must be int''))
           | None \<Rightarrow> Inr 0))"

definition proxyOf :: "'r env \<Rightarrow> (go_int \<rightharpoonup> val) \<Rightarrow> error + proxy" where
  "proxyOf env options =
     (case options OPT_PROXY_FUNC of
        Some v \<Rightarrow>
          (case v of
             VProxyFunc f \<Rightarrow> Inr (ProxyFunc f)
           | _ \<Rightarrow> Inl (Errorf ''OPT_PROXY_FUNC is not a desired function''))
      | None \<Rightarrow>
          (case (case options OPT_PROXYTYPE of
                   Some (VInt proxytype) \<Rightarrow> proxytype = PROXY_HTTP
                 | Some _ \<Rightarrow> False
                 | None \<Rightarrow> True) of
             False \<Rightarrow>
               Inl (Errorf
                 ''OPT_PROXYTYPE must be int, and only PROXY_HTTP is currently supported'')
           | True \<Rightarrow>
               (case options OPT_PROXY of
                  None \<Rightarrow> Inr NoProxy
                | Some v \<Rightarrow>
                    (case v of
                       VString p \<Rightarrow>
                         (case url_Parse env (''http://'' @ p) of
                            Inl err \<Rightarrow> Inl err
                          | Inr proxyUrl \<Rightarrow> Inr (ProxyURL proxyUrl))
                     | _ \<Rightarrow> Inl (Errorf ''OPT_PROXY must be string'')))))"

definition prepareTransport :: "'r env \<Rightarrow> (go_int \<rightharpoonup> val) \<Rightarrow> error + transport" where
  "prepareTransport env options =
     (case connectTimeoutOf options of
        Inl err \<Rightarrow> Inl err
      | Inr connectTimeoutMS0 \<Rightarrow>
          (case timeoutOf options of
             Inl err \<Rightarrow> Inl err
           | Inr timeoutMS0 \<Rightarrow>
               let connectTimeoutMS1 =
                     (if 0 <s timeoutMS0 \<and>
                         (timeoutMS0 <s connectTimeoutMS0 \<or> connectTimeoutMS0 = 0)
                      then timeoutMS0 else connectTimeoutMS0)
               in (case proxyOf env options of
                     Inl err \<Rightarrow> Inl err
                   | Inr p \<Rightarrow>
                       Inr \<lparr>connectTimeoutMS = connectTimeoutMS1, timeoutMS = timeoutMS0,
                            Proxy = p\<rparr>)))"

text \<open>\<open>fmt.Sprintf("%d", n)\<close> for a length.\<close>

fun showNat :: "nat \<Rightarrow> string" where
  "showNat n =
     (if n < 10 then [''0123456789'' ! n]
      else showNat (n div 10) @ [''0123456789'' ! (n mod 10)])"

declare showNat.simps [simp del]

text \<open>
  \<open>prepareRedirect\<close>, and the closure it synthesises. The closure reads
  \<open>via[len(via)-1]\<close>, an index out of range on an empty \<open>via\<close>; it returns the error and the
  request it may have changed.
\<close>

definition prepareRedirect :: "(go_int \<rightharpoonup> val) \<Rightarrow> error + redirect" where
  "prepareRedirect options =
     (case options OPT_REDIRECT_POLICY of
        Some v \<Rightarrow>
          (case v of
             VRedirectPolicy f \<Rightarrow> Inr (Override f)
           | _ \<Rightarrow> Inl (Errorf ''OPT_REDIRECT_POLICY is not a desired function''))
      | None \<Rightarrow>
          (case (case options OPT_FOLLOWLOCATION of
                   Some v \<Rightarrow>
                     (case v of
                        VBool b \<Rightarrow> Inr b
                      | _ \<Rightarrow> Inl (Errorf ''OPT_FOLLOWLOCATION must be bool''))
                 | None \<Rightarrow> Inr False) of
             Inl err \<Rightarrow> Inl err
           | Inr followlocation \<Rightarrow>
               (case (case options OPT_MAXREDIRS of
                        Some v \<Rightarrow>
                          (case v of
                             VInt n \<Rightarrow> Inr n
                           | _ \<Rightarrow> Inl (Errorf ''OPT_MAXREDIRS must be int''))
                      | None \<Rightarrow> Inr 0) of
                  Inl err \<Rightarrow> Inl err
                | Inr maxredirs \<Rightarrow> Inr (Synthesized followlocation maxredirs))))"

definition redirectPolicy ::
  "bool \<Rightarrow> go_int \<Rightarrow> request \<Rightarrow> request list \<Rightarrow> panic + (request \<times> error option)" where
  "redirectPolicy followlocation maxredirs req via =
     (if \<not> followlocation \<or> maxredirs \<le>s 0
      then Inr (req, Some (Error ERR_REDIRECT_POLICY ''redirect not allowed''))
      else if sint maxredirs \<le> int (length via)
      then Inr (req, Some (Error ERR_REDIRECT_POLICY
             (''stopped after '' @ showNat (length via) @ '' redirects'')))
      else
        (case rev via of
           [] \<Rightarrow> Inl IndexOutOfRange
         | lastReq # _ \<Rightarrow>
             (case Header lastReq ''User-Agent'' of
                None \<Rightarrow> Inr (req, None)
              | Some useragent \<Rightarrow>
                  if useragent \<noteq> []
                  then Inr (req\<lparr>Header := (Header req)(''User-Agent'' \<mapsto> useragent)\<rparr>, None)
                  else Inr (req, None))))"

text \<open>\<open>prepareJar\<close>: the jar, or nil.\<close>

definition prepareJar :: "'r env \<Rightarrow> (go_int \<rightharpoonup> val) \<Rightarrow> error + jar option" where
  "prepareJar env options =
     (case options OPT_COOKIEJAR of
        None \<Rightarrow> Inr None
      | Some v \<Rightarrow>
          (case v of
             VBool optCookieJar \<Rightarrow>
               (if optCookieJar
                then (case cookiejar_New env of
                        Inl err \<Rightarrow> Inl err
                      | Inr j \<Rightarrow> Inr (Some j))
                else Inr None)
           | VJar j \<Rightarrow> Inr (Some j)
           | _ \<Rightarrow> Inl (Errorf ''invalid cookiejar'')))"

section \<open>The client\<close>

text \<open>
  The \<open>Client\<close> struct. A nil map, a nil transport and a nil jar are \<open>None\<close>; the lock is nil
  (\<open>None\<close>) or a mutex that is held (\<open>Some True\<close>) or free (\<open>Some False\<close>).
\<close>

record Client =
  Options :: options
  Headers :: headers
  oneTimeOptions :: options
  oneTimeHeaders :: headers
  oneTimeCookies :: "cookie list"
  transport :: "transport option"
  jar :: "jar option"
  reuseTransport :: bool
  reuseJar :: bool
  lock :: "bool option"

definition NewClient :: Client where
  "NewClient =
     \<lparr>Options = None, Headers = None, oneTimeOptions = None, oneTimeHeaders = None,
      oneTimeCookies = [], transport = None, jar = None,
      reuseTransport = True, reuseJar = True, lock = None\<rparr>"

text \<open>
  The package-level \<open>client\<close> that the free functions delegate to: \<open>init\<close> sets it to
  \<open>new(Client)\<close>, the zero value of the struct.
\<close>

definition init :: Client where
  "init =
     \<lparr>Options = None, Headers = None, oneTimeOptions = None, oneTimeHeaders = None,
      oneTimeCookies = [], transport = None, jar = None,
      reuseTransport = False, reuseJar = False, lock = None\<rparr>"

definition Defaults :: "Client \<Rightarrow> options \<Rightarrow> headers \<Rightarrow> Client" where
  "Defaults client opts hdrs =
     (let client1 = (case Options client of
                       None \<Rightarrow> client\<lparr>Options := opts\<rparr>
                     | Some m \<Rightarrow> client\<lparr>Options := Some (m ++ entries opts)\<rparr>)
      in (case Headers client1 of
            None \<Rightarrow> client1\<lparr>Headers := hdrs\<rparr>
          | Some m \<Rightarrow> client1\<lparr>Headers := Some (m ++ entries hdrs)\<rparr>))"


text \<open>
  \<open>reset\<close>. \<open>Unlock\<close> on a mutex that is not locked is a fatal run-time error of the
  \<open>sync\<close> package.
\<close>

definition reset :: "Client \<Rightarrow> panic + Client" where
  "reset client =
     (let client1 = client\<lparr>oneTimeOptions := None, oneTimeHeaders := None,
                           oneTimeCookies := [], reuseTransport := True, reuseJar := True\<rparr>
      in (case lock client1 of
            None \<Rightarrow> Inr client1
          | Some held \<Rightarrow>
              if held then Inr (client1\<lparr>lock := Some False\<rparr>)
              else Inl UnlockOfUnlockedMutex))"

definition WithOption :: "Client \<Rightarrow> go_int \<Rightarrow> val \<Rightarrow> Client" where
  "WithOption client option v =
     (let client1 = client\<lparr>oneTimeOptions := Some ((entries (oneTimeOptions client))(option \<mapsto> v))\<rparr>;
          client2 = (if \<not> hasOption option transportOptions
                     then client1\<lparr>reuseTransport := False\<rparr> else client1)
      in if \<not> hasOption option jarOptions then client2\<lparr>reuseJar := False\<rparr> else client2)"

text \<open>
  \<open>WithOptions\<close> and \<open>WithHeaders\<close> range over their map: the list gives the bindings in the
  order of the range.
\<close>

definition WithOptions :: "Client \<Rightarrow> (go_int \<times> val) list \<Rightarrow> Client" where
  "WithOptions client opts = foldl (\<lambda>c (option, v). WithOption c option v) client opts"

definition WithHeader :: "Client \<Rightarrow> string \<Rightarrow> string \<Rightarrow> Client" where
  "WithHeader client name v =
     client\<lparr>oneTimeHeaders := Some ((entries (oneTimeHeaders client))(name \<mapsto> v))\<rparr>"

definition WithHeaders :: "Client \<Rightarrow> (string \<times> string) list \<Rightarrow> Client" where
  "WithHeaders client hdrs = foldl (\<lambda>c (name, v). WithHeader c name v) client hdrs"


text \<open>
  \<open>Do\<close> returns the client as it leaves it and the pair (response, error) of the source; a
  panic ends the run. The transport and jar blocks give the instance to use and the client
  with its cache updated.
\<close>

definition useTransport ::
  "'r env \<Rightarrow> Client \<Rightarrow> (go_int \<rightharpoonup> val) \<Rightarrow> error + (transport \<times> Client)" where
  "useTransport env client options =
     (let build = (case prepareTransport env options of
                     Inl err \<Rightarrow> Inl err
                   | Inr t \<Rightarrow>
                       Inr (t, if reuseTransport client
                               then client\<lparr>transport := Some t\<rparr> else client))
      in (case transport client of
            None \<Rightarrow> build
          | Some cached \<Rightarrow> if \<not> reuseTransport client then build else Inr (cached, client)))"

definition useJar ::
  "'r env \<Rightarrow> Client \<Rightarrow> (go_int \<rightharpoonup> val) \<Rightarrow> error + (jar option \<times> Client)" where
  "useJar env client options =
     (let build = (case prepareJar env options of
                     Inl err \<Rightarrow> Inl err
                   | Inr j \<Rightarrow>
                       Inr (j, if reuseJar client then client\<lparr>jar := j\<rparr> else client))
      in (case jar client of
            None \<Rightarrow> build
          | Some cached \<Rightarrow> if \<not> reuseJar client then build else Inr (Some cached, client)))"

definition failWith ::
  "Client \<Rightarrow> error \<Rightarrow> panic + (Client \<times> 'r Response option \<times> error option)" where
  "failWith client err =
     (case reset client of
        Inl p \<Rightarrow> Inl p
      | Inr client1 \<Rightarrow> Inr (client1, None, Some err))"

definition Do ::
  "'r env \<Rightarrow> Client \<Rightarrow> string \<Rightarrow> string \<Rightarrow> headers \<Rightarrow> body
     \<Rightarrow> panic + (Client \<times> 'r Response option \<times> error option)" where
  "Do env client method url hdrs bdy =
     (let options = mergeOptions [Some defaultOptions, Options client, oneTimeOptions client];
          cookies = oneTimeCookies client;
          hdrs1 = mergeHeaders [Headers client, oneTimeHeaders client, hdrs]
      in (case useTransport env client options of
            Inl err \<Rightarrow> failWith client err
          | Inr (tr, client1) \<Rightarrow>
              (case useJar env client1 options of
                 Inl err \<Rightarrow> failWith client1 err
               | Inr (j, client2) \<Rightarrow>
                   (case reset client2 of
                      Inl p \<Rightarrow> Inl p
                    | Inr client3 \<Rightarrow>
                        (case prepareRedirect options of
                           Inl err \<Rightarrow> Inr (client3, None, Some err)
                         | Inr redir \<Rightarrow>
                             (case prepareRequest env method url hdrs1 bdy options of
                                Inl err \<Rightarrow> Inr (client3, None, Some err)
                              | Inr req \<Rightarrow>
                                  let call =
                                        (if j \<noteq> None
                                         then \<lparr>Transport = tr, CheckRedirect = redir, Jar = j,
                                               Request = req, SetCookies = cookies\<rparr>
                                         else \<lparr>Transport = tr, CheckRedirect = redir, Jar = j,
                                               Request = req\<lparr>Cookie := Cookie req @ cookies\<rparr>,
                                               SetCookies = []\<rparr>);
                                      (res, err) = httpClient_Do env call
                                  in Inr (client3, Some (Response res), err)))))))"

definition Get ::
  "'r env \<Rightarrow> Client \<Rightarrow> string \<Rightarrow> url_Values
     \<Rightarrow> panic + (Client \<times> 'r Response option \<times> error option)" where
  "Get env client url params = Do env client ''GET'' (addQuery url params) None NoBody"

text \<open>
  \<open>addFormFile\<close>: the writer with the file part added, or the error of opening or copying
  the file (a writer over a buffer does not fail to create the part).
\<close>

definition addFormFile :: "'r env \<Rightarrow> part list \<Rightarrow> string \<Rightarrow> string \<Rightarrow> error + part list" where
  "addFormFile env writer name path =
     (case os_Open env path of
        Inl err \<Rightarrow> Inl err
      | Inr file \<Rightarrow>
          (case file of
             Inl err \<Rightarrow> Inl err
           | Inr content \<Rightarrow> Inr (writer @ [FormFile name (filepath_Base env path) content])))"

text \<open>
  The loop of \<open>PostMultipart\<close>: \<open>name[0]\<close> on an empty name and \<open>values[0]\<close> on an empty
  list are indices out of range; the error of a file part ends the loop.
\<close>

fun writeParams :: "'r env \<Rightarrow> part list \<Rightarrow> url_Values \<Rightarrow> panic + (error + part list)" where
  "writeParams env writer [] = Inr (Inr writer)"
| "writeParams env writer ((name, vals) # rest) =
     (case name of
        [] \<Rightarrow> Inl IndexOutOfRange
      | c # cs \<Rightarrow>
          if c = CHR ''@''
          then (case vals of
                  [] \<Rightarrow> Inl IndexOutOfRange
                | v # _ \<Rightarrow>
                    (case addFormFile env writer cs v of
                       Inl err \<Rightarrow> Inr (Inl err)
                     | Inr writer1 \<Rightarrow> writeParams env writer1 rest))
          else writeParams env (writer @ map (FormField name) vals) rest)"

definition PostMultipart ::
  "'r env \<Rightarrow> Client \<Rightarrow> string \<Rightarrow> url_Values
     \<Rightarrow> panic + (Client \<times> 'r Response option \<times> error option)" where
  "PostMultipart env client url params =
     (case writeParams env [] params of
        Inl p \<Rightarrow> Inl p
      | Inr (Inl err) \<Rightarrow> Inr (client, None, Some err)
      | Inr (Inr writer) \<Rightarrow>
          let hdrs = [''Content-Type'' \<mapsto> ''multipart/form-data; boundary='' @ Boundary env]
          in (case writer_Close env writer of
                Some err \<Rightarrow> Inr (client, None, Some err)
              | None \<Rightarrow>
                  Do env client ''POST'' url (Some hdrs) (MultipartBody (Boundary env) writer)))"

definition Post ::
  "'r env \<Rightarrow> Client \<Rightarrow> string \<Rightarrow> url_Values
     \<Rightarrow> panic + (Client \<times> 'r Response option \<times> error option)" where
  "Post env client url params =
     (case checkParamFile params of
        Inl p \<Rightarrow> Inl p
      | Inr isFile \<Rightarrow>
          if isFile then PostMultipart env client url params
          else Do env client ''POST'' url
                 (Some [''Content-Type'' \<mapsto> ''application/x-www-form-urlencoded''])
                 (StringBody (Encode params)))"

text \<open>
  A collaborator instance to evaluate the model on: every URL parses, the jar is made, the
  network answers with the call it was given (so that a result shows what was sent), and no
  file can be opened.
\<close>

definition stubEnv :: "http_call env" where
  "stubEnv =
     \<lparr>url_Parse = (\<lambda>s. Inr s),
      http_NewRequest = (\<lambda>m u. None),
      cookiejar_New = Inr DefaultJar,
      httpClient_Do = (\<lambda>c. (Some c, None)),
      os_Open = (\<lambda>p. Inl (LibError ''open: no such file or directory'')),
      filepath_Base = (\<lambda>p. p),
      Boundary = ''boundary'',
      writer_Close = (\<lambda>w. None)\<rparr>"

section \<open>Merging layers\<close>

lemma merge_fold_lookup:
  "(foldl (\<lambda>merged piece. merged ++ entries piece) acc layers) k =
     (case filter (\<lambda>l. entries l k \<noteq> None) layers of
        [] \<Rightarrow> acc k
      | l # ls \<Rightarrow> entries (last (l # ls)) k)"
proof (induction layers arbitrary: acc)
  case Nil
  show ?case by simp
next
  case (Cons a layers)
  show ?case
  proof (cases "entries a k")
    case None
    have "(acc ++ entries a) k = acc k"
      using None by (simp add: map_add_def)
    then show ?thesis
      using None by (simp add: Cons.IH split: list.splits)
  next
    case (Some v)
    have "(acc ++ entries a) k = entries a k"
      using Some by (simp add: map_add_def)
    then show ?thesis
      using Some by (simp add: Cons.IH split: list.splits)
  qed
qed

text \<open>
  C4. The merge is right-biased. For any list of layers given lowest precedence first and any
  key, the merged map binds the key to the value of the last layer that defines it, and does
  not bind a key that no layer defines; for the three layers of \<open>Do\<close> the one-time layer wins,
  then the client's, then the library's (for headers: the call's, the one-time, the client's).
  \<open>mergeOptions\<close> and \<open>mergeHeaders\<close> are total functions into maps: they have no error case.
\<close>

theorem merge_right_biased:
  "mergeOptions layers k =
     (case filter (\<lambda>l. entries l k \<noteq> None) layers of
        [] \<Rightarrow> None
      | l # ls \<Rightarrow> entries (last (l # ls)) k) \<and>
   mergeHeaders hlayers name =
     (case filter (\<lambda>l. entries l name \<noteq> None) hlayers of
        [] \<Rightarrow> None
      | l # ls \<Rightarrow> entries (last (l # ls)) name) \<and>
   mergeOptions [defaults, clientDefaults, oneTime] k =
     (case entries oneTime k of
        Some v \<Rightarrow> Some v
      | None \<Rightarrow> (case entries clientDefaults k of
                   Some v \<Rightarrow> Some v
                 | None \<Rightarrow> entries defaults k)) \<and>
   mergeHeaders [hdefaults, honeTime, hcall] name =
     (case entries hcall name of
        Some v \<Rightarrow> Some v
      | None \<Rightarrow> (case entries honeTime name of
                   Some v \<Rightarrow> Some v
                 | None \<Rightarrow> entries hdefaults name))"
proof (intro conjI)
  show "mergeOptions layers k =
     (case filter (\<lambda>l. entries l k \<noteq> None) layers of
        [] \<Rightarrow> None
      | l # ls \<Rightarrow> entries (last (l # ls)) k)"
    unfolding mergeOptions_def by (simp add: merge_fold_lookup)
  show "mergeHeaders hlayers name =
     (case filter (\<lambda>l. entries l name \<noteq> None) hlayers of
        [] \<Rightarrow> None
      | l # ls \<Rightarrow> entries (last (l # ls)) name)"
    unfolding mergeHeaders_def by (simp add: merge_fold_lookup)
  show "mergeOptions [defaults, clientDefaults, oneTime] k =
     (case entries oneTime k of
        Some v \<Rightarrow> Some v
      | None \<Rightarrow> (case entries clientDefaults k of
                   Some v \<Rightarrow> Some v
                 | None \<Rightarrow> entries defaults k))"
    by (simp add: mergeOptions_def map_add_def split: option.splits)
  show "mergeHeaders [hdefaults, honeTime, hcall] name =
     (case entries hcall name of
        Some v \<Rightarrow> Some v
      | None \<Rightarrow> (case entries honeTime name of
                   Some v \<Rightarrow> Some v
                 | None \<Rightarrow> entries hdefaults name))"
    by (simp add: mergeHeaders_def map_add_def split: option.splits)
qed

theorem merge_right_biased_witness:
  "mergeOptions [Some defaultOptions, Some [OPT_MAXREDIRS \<mapsto> VInt 5, OPT_TIMEOUT \<mapsto> VInt 3],
       Some [OPT_MAXREDIRS \<mapsto> VInt 2]] OPT_MAXREDIRS = Some (VInt 2) \<and>
   mergeOptions [Some defaultOptions, Some [OPT_MAXREDIRS \<mapsto> VInt 5, OPT_TIMEOUT \<mapsto> VInt 3],
       Some [OPT_MAXREDIRS \<mapsto> VInt 2]] OPT_TIMEOUT = Some (VInt 3) \<and>
   mergeOptions [Some defaultOptions, Some [OPT_MAXREDIRS \<mapsto> VInt 5, OPT_TIMEOUT \<mapsto> VInt 3],
       None] OPT_FOLLOWLOCATION = Some (VBool True) \<and>
   mergeHeaders [Some [''Accept'' \<mapsto> ''a''], None, Some [''Accept'' \<mapsto> ''b'']] ''Accept''
     = Some ''b''"
  using
    merge_right_biased [of "[]" "OPT_MAXREDIRS" "[]" "''Accept''" "Some defaultOptions"
      "Some [OPT_MAXREDIRS \<mapsto> VInt 5, OPT_TIMEOUT \<mapsto> VInt 3]" "Some [OPT_MAXREDIRS \<mapsto> VInt 2]"
      "Some [''Accept'' \<mapsto> ''a'']" "None" "Some [''Accept'' \<mapsto> ''b'']"]
    merge_right_biased [of "[]" "OPT_TIMEOUT" "[]" "''Accept''" "Some defaultOptions"
      "Some [OPT_MAXREDIRS \<mapsto> VInt 5, OPT_TIMEOUT \<mapsto> VInt 3]" "Some [OPT_MAXREDIRS \<mapsto> VInt 2]"
      "Some [''Accept'' \<mapsto> ''a'']" "None" "Some [''Accept'' \<mapsto> ''b'']"]
    merge_right_biased [of "[]" "OPT_FOLLOWLOCATION" "[]" "''Accept''" "Some defaultOptions"
      "Some [OPT_MAXREDIRS \<mapsto> VInt 5, OPT_TIMEOUT \<mapsto> VInt 3]" "None"
      "Some [''Accept'' \<mapsto> ''a'']" "None" "Some [''Accept'' \<mapsto> ''b'']"]
  by (simp add: entries_def defaultOptions_def opt_defs)

section \<open>The connect timeout\<close>


lemma sless_numerals: "(0::64 word) <s 5000" "(5000::64 word) <s 8000" "(0::64 word) <s 3000" "\<not> (0::64 word) <s 0"
  by (simp_all add: word_sless_alt)



section \<open>The synthesised redirect policy\<close>

lemma not_sle_zero: "(\<not> (m::go_int) \<le>s 0) = (0 <s m)"
  by (simp add: word_sle_eq word_sless_alt not_le)

text \<open>
  C5, as amended. The redirect policy synthesised when no override is supplied. \<open>via\<close> holds
  the requests made already, oldest first, the original request included: at the k-th
  redirect of a chain its length is k, and that length is the number of prior hops. The
  policy denies with "redirect not allowed" whenever follow-location is false or
  max-redirects is at most 0; it denies with "stopped after N redirects", N the length of
  \<open>via\<close>, whenever that length has reached max-redirects; otherwise, on a non-empty \<open>via\<close>, it
  allows the redirect (no error). So with follow-location true and a positive max-redirects a
  redirect is allowed exactly when fewer than max-redirects requests have been made: with
  max-redirects 2 the first redirect is allowed and the second is denied with "stopped after
  2 redirects", one hop having been followed; with follow-location false the very first
  redirect is denied. \<open>prepareRedirect\<close> builds this policy from the two options when no
  override is present.
\<close>

theorem redirect_policy_synthesized:
  "(\<not> followlocation \<or> maxredirs \<le>s 0 \<longrightarrow>
      redirectPolicy followlocation maxredirs req via =
        Inr (req, Some (Error ERR_REDIRECT_POLICY ''redirect not allowed''))) \<and>
   (followlocation \<and> 0 <s maxredirs \<and> sint maxredirs \<le> int (length via) \<longrightarrow>
      redirectPolicy followlocation maxredirs req via =
        Inr (req, Some (Error ERR_REDIRECT_POLICY
          (''stopped after '' @ showNat (length via) @ '' redirects'')))) \<and>
   (followlocation \<and> 0 <s maxredirs \<and> int (length via) < sint maxredirs \<and> via \<noteq> [] \<longrightarrow>
      (\<exists>req'. redirectPolicy followlocation maxredirs req via = Inr (req', None))) \<and>
   (followlocation \<and> 0 <s maxredirs \<and> via \<noteq> [] \<longrightarrow>
      (\<exists>req'. redirectPolicy followlocation maxredirs req via = Inr (req', None)) =
        (int (length via) < sint maxredirs)) \<and>
   (length via = 1 \<longrightarrow> (\<exists>req'. redirectPolicy True 2 req via = Inr (req', None))) \<and>
   (length via = 2 \<longrightarrow>
      redirectPolicy True 2 req via =
        Inr (req, Some (Error ERR_REDIRECT_POLICY ''stopped after 2 redirects''))) \<and>
   redirectPolicy False maxredirs req via =
     Inr (req, Some (Error ERR_REDIRECT_POLICY ''redirect not allowed'')) \<and>
   (options OPT_REDIRECT_POLICY = None \<and> options OPT_FOLLOWLOCATION = Some (VBool followlocation) \<and>
    options OPT_MAXREDIRS = Some (VInt maxredirs) \<longrightarrow>
      prepareRedirect options = Inr (Synthesized followlocation maxredirs))"
proof -
  have deny: "redirectPolicy f m req via =
        Inr (req, Some (Error ERR_REDIRECT_POLICY
          (''stopped after '' @ showNat (length via) @ '' redirects'')))"
    if "f \<and> 0 <s m \<and> sint m \<le> int (length via)" for f m
    using that by (simp add: redirectPolicy_def not_sle_zero)
  have allow: "\<exists>req'. redirectPolicy f m req via = Inr (req', None)"
    if a: "f \<and> 0 <s m \<and> int (length via) < sint m \<and> via \<noteq> []" for f m
  proof -
    from a obtain lastReq front where "rev via = lastReq # front"
      by (cases "rev via") auto
    with a show ?thesis
      by (simp add: redirectPolicy_def not_sle_zero split: option.splits)
  qed
  have two: "(0::go_int) <s 2" "sint (2::go_int) = 2"
    by (simp_all add: word_sless_alt)
  show ?thesis
  proof (intro conjI impI)
    assume "\<not> followlocation \<or> maxredirs \<le>s 0"
    then show "redirectPolicy followlocation maxredirs req via =
        Inr (req, Some (Error ERR_REDIRECT_POLICY ''redirect not allowed''))"
      by (simp add: redirectPolicy_def)
  next
    assume "followlocation \<and> 0 <s maxredirs \<and> sint maxredirs \<le> int (length via)"
    then show "redirectPolicy followlocation maxredirs req via =
        Inr (req, Some (Error ERR_REDIRECT_POLICY
          (''stopped after '' @ showNat (length via) @ '' redirects'')))"
      by (rule deny)
  next
    assume "followlocation \<and> 0 <s maxredirs \<and> int (length via) < sint maxredirs \<and> via \<noteq> []"
    then show "\<exists>req'. redirectPolicy followlocation maxredirs req via = Inr (req', None)"
      by (rule allow)
  next
    assume a: "followlocation \<and> 0 <s maxredirs \<and> via \<noteq> []"
    show "(\<exists>req'. redirectPolicy followlocation maxredirs req via = Inr (req', None)) =
        (int (length via) < sint maxredirs)"
    proof (cases "int (length via) < sint maxredirs")
      case True
      with a allow [of followlocation maxredirs] show ?thesis by simp
    next
      case False
      with a deny [of followlocation maxredirs] show ?thesis by simp
    qed
  next
    assume "length via = 1"
    then have "True \<and> (0::go_int) <s 2 \<and> int (length via) < sint (2::go_int) \<and> via \<noteq> []"
      using two by auto
    then show "\<exists>req'. redirectPolicy True 2 req via = Inr (req', None)"
      by (rule allow)
  next
    assume l: "length via = 2"
    then have "True \<and> (0::go_int) <s 2 \<and> sint (2::go_int) \<le> int (length via)"
      using two by simp
    from deny [OF this] l show "redirectPolicy True 2 req via =
        Inr (req, Some (Error ERR_REDIRECT_POLICY ''stopped after 2 redirects''))"
      by (simp add: showNat.simps)
  next
    show "redirectPolicy False maxredirs req via =
       Inr (req, Some (Error ERR_REDIRECT_POLICY ''redirect not allowed''))"
      by (simp add: redirectPolicy_def)
  next
    assume "options OPT_REDIRECT_POLICY = None \<and>
      options OPT_FOLLOWLOCATION = Some (VBool followlocation) \<and>
      options OPT_MAXREDIRS = Some (VInt maxredirs)"
    then show "prepareRedirect options = Inr (Synthesized followlocation maxredirs)"
      by (simp add: prepareRedirect_def)
  qed
qed

theorem redirect_policy_synthesized_witness:
  "(\<exists>req'. redirectPolicy True 2
        \<lparr>Method = ''GET'', URL = ''http://x/a'', Header = Map.empty, Body = NoBody, Cookie = []\<rparr>
        [\<lparr>Method = ''GET'', URL = ''http://x/'', Header = Map.empty, Body = NoBody, Cookie = []\<rparr>] =
      Inr (req', None)) \<and>
   redirectPolicy True 2
     \<lparr>Method = ''GET'', URL = ''http://x/b'', Header = Map.empty, Body = NoBody, Cookie = []\<rparr>
     [\<lparr>Method = ''GET'', URL = ''http://x/'', Header = Map.empty, Body = NoBody, Cookie = []\<rparr>,
      \<lparr>Method = ''GET'', URL = ''http://x/a'', Header = Map.empty, Body = NoBody, Cookie = []\<rparr>] =
     Inr (\<lparr>Method = ''GET'', URL = ''http://x/b'', Header = Map.empty, Body = NoBody, Cookie = []\<rparr>,
          Some (Error ERR_REDIRECT_POLICY ''stopped after 2 redirects'')) \<and>
   redirectPolicy True 0
     \<lparr>Method = ''GET'', URL = ''http://x/a'', Header = Map.empty, Body = NoBody, Cookie = []\<rparr>
     [\<lparr>Method = ''GET'', URL = ''http://x/'', Header = Map.empty, Body = NoBody, Cookie = []\<rparr>] =
     Inr (\<lparr>Method = ''GET'', URL = ''http://x/a'', Header = Map.empty, Body = NoBody, Cookie = []\<rparr>,
          Some (Error ERR_REDIRECT_POLICY ''redirect not allowed'')) \<and>
   redirectPolicy False 10
     \<lparr>Method = ''GET'', URL = ''http://x/a'', Header = Map.empty, Body = NoBody, Cookie = []\<rparr>
     [\<lparr>Method = ''GET'', URL = ''http://x/'', Header = Map.empty, Body = NoBody, Cookie = []\<rparr>] =
     Inr (\<lparr>Method = ''GET'', URL = ''http://x/a'', Header = Map.empty, Body = NoBody, Cookie = []\<rparr>,
          Some (Error ERR_REDIRECT_POLICY ''redirect not allowed'')) \<and>
   prepareRedirect [OPT_FOLLOWLOCATION \<mapsto> VBool True, OPT_MAXREDIRS \<mapsto> VInt 2] =
     Inr (Synthesized True 2)"
  using
    redirect_policy_synthesized [of True 2
      "\<lparr>Method = ''GET'', URL = ''http://x/a'', Header = Map.empty, Body = NoBody, Cookie = []\<rparr>"
      "[\<lparr>Method = ''GET'', URL = ''http://x/'', Header = Map.empty, Body = NoBody, Cookie = []\<rparr>]"
      "[OPT_FOLLOWLOCATION \<mapsto> VBool True, OPT_MAXREDIRS \<mapsto> VInt 2]"]
    redirect_policy_synthesized [of True 2
      "\<lparr>Method = ''GET'', URL = ''http://x/b'', Header = Map.empty, Body = NoBody, Cookie = []\<rparr>"
      "[\<lparr>Method = ''GET'', URL = ''http://x/'', Header = Map.empty, Body = NoBody, Cookie = []\<rparr>,
        \<lparr>Method = ''GET'', URL = ''http://x/a'', Header = Map.empty, Body = NoBody, Cookie = []\<rparr>]"
      "[OPT_FOLLOWLOCATION \<mapsto> VBool True, OPT_MAXREDIRS \<mapsto> VInt 2]"]
    redirect_policy_synthesized [of True 0
      "\<lparr>Method = ''GET'', URL = ''http://x/a'', Header = Map.empty, Body = NoBody, Cookie = []\<rparr>"
      "[\<lparr>Method = ''GET'', URL = ''http://x/'', Header = Map.empty, Body = NoBody, Cookie = []\<rparr>]"
      "[OPT_FOLLOWLOCATION \<mapsto> VBool True, OPT_MAXREDIRS \<mapsto> VInt 2]"]
    redirect_policy_synthesized [of False 10
      "\<lparr>Method = ''GET'', URL = ''http://x/a'', Header = Map.empty, Body = NoBody, Cookie = []\<rparr>"
      "[\<lparr>Method = ''GET'', URL = ''http://x/'', Header = Map.empty, Body = NoBody, Cookie = []\<rparr>]"
      "[OPT_FOLLOWLOCATION \<mapsto> VBool True, OPT_MAXREDIRS \<mapsto> VInt 2]"]
  by (simp add: showNat.simps opt_defs word_sless_alt word_sle_eq)

text \<open>
  C5 as stated fails in its example: with max-redirects 2 the policy built from the options
  allows the first redirect and denies the second, whose \<open>via\<close> holds the original request
  and the request of the first redirect. One hop is followed, and the denied redirect is
  the second, not the third.
\<close>

theorem second_redirect_denied_counterexample:
  "prepareRedirect [OPT_FOLLOWLOCATION \<mapsto> VBool True, OPT_MAXREDIRS \<mapsto> VInt 2] =
     Inr (Synthesized True 2) \<and>
   redirectPolicy True 2
     \<lparr>Method = ''GET'', URL = ''http://x/a'', Header = Map.empty, Body = NoBody, Cookie = []\<rparr>
     [\<lparr>Method = ''GET'', URL = ''http://x/'', Header = Map.empty, Body = NoBody, Cookie = []\<rparr>] =
     Inr (\<lparr>Method = ''GET'', URL = ''http://x/a'', Header = Map.empty, Body = NoBody, Cookie = []\<rparr>,
          None) \<and>
   redirectPolicy True 2
     \<lparr>Method = ''GET'', URL = ''http://x/b'', Header = Map.empty, Body = NoBody, Cookie = []\<rparr>
     [\<lparr>Method = ''GET'', URL = ''http://x/'', Header = Map.empty, Body = NoBody, Cookie = []\<rparr>,
      \<lparr>Method = ''GET'', URL = ''http://x/a'', Header = Map.empty, Body = NoBody, Cookie = []\<rparr>] =
     Inr (\<lparr>Method = ''GET'', URL = ''http://x/b'', Header = Map.empty, Body = NoBody, Cookie = []\<rparr>,
          Some (Error ERR_REDIRECT_POLICY ''stopped after 2 redirects''))"
  by (simp add: prepareRedirect_def redirectPolicy_def opt_defs word_sle_eq showNat.simps)

section \<open>Reuse of the transport and of the jar\<close>

lemma hasOption_transportOptions: "hasOption option transportOptions"
  by (simp add: transportOptions_def opt_defs)

lemma hasOption_jarOptions: "hasOption option jarOptions = (option \<noteq> OPT_COOKIEJAR)"
  by (simp add: jarOptions_def)

lemma WithOption_reuseTransport: "reuseTransport (WithOption client option v) = reuseTransport client"
  by (simp add: WithOption_def Let_def hasOption_transportOptions)

lemma WithOption_reuseJar:
  "reuseJar (WithOption client option v) = (reuseJar client \<and> option \<noteq> OPT_COOKIEJAR)"
  by (simp add: WithOption_def Let_def hasOption_transportOptions hasOption_jarOptions)

lemmas Do_eval_defs =
  Do_def useTransport_def useJar_def failWith_def reset_def prepareTransport_def
  connectTimeoutOf_def timeoutOf_def proxyOf_def prepareJar_def prepareRedirect_def
  prepareRequest_def mergeOptions_def mergeHeaders_def entries_def defaultOptions_def
  stubEnv_def NewClient_def WithOption_def Let_def opt_defs
  transportOptions_def jarOptions_def

lemma Do_NewClient:
  "Do stubEnv NewClient ''GET'' ''http://x/y'' None NoBody =
     Inr (NewClient\<lparr>transport := Some \<lparr>connectTimeoutMS = 0, timeoutMS = 0, Proxy = NoProxy\<rparr>,
                    jar := Some DefaultJar\<rparr>,
          Some (Response (Some
            \<lparr>Transport = \<lparr>connectTimeoutMS = 0, timeoutMS = 0, Proxy = NoProxy\<rparr>,
             CheckRedirect = Synthesized True 10, Jar = Some DefaultJar,
             Request = \<lparr>Method = ''GET'', URL = ''http://x/y'',
                        Header = [''User-Agent'' \<mapsto> []], Body = NoBody, Cookie = []\<rparr>,
             SetCookies = []\<rparr>)),
          None)"
  by (simp add: Do_eval_defs)

text \<open>
  C1. The transport is to be built anew for a request that sets a transport-affecting option
  such as the proxy. The code does not do so: \<open>hasOption\<close> answers true for every option on
  the eight-element list \<open>transportOptions\<close>, so \<open>WithOption\<close> never clears
  \<open>reuseTransport\<close>. On a client whose first request cached a transport without a proxy, a
  request with the one-time option \<open>OPT_PROXY\<close> is issued through the cached transport, while
  \<open>prepareTransport\<close> on the options of that request gives a transport with the proxy.
\<close>

theorem one_time_proxy_reuses_cached_transport:
  "Do stubEnv
      (WithOption
         (NewClient\<lparr>transport := Some \<lparr>connectTimeoutMS = 0, timeoutMS = 0, Proxy = NoProxy\<rparr>,
                    jar := Some DefaultJar\<rparr>)
         OPT_PROXY (VString ''127.0.0.1:8080''))
      ''GET'' ''http://x/y'' None NoBody =
     Inr (NewClient\<lparr>transport := Some \<lparr>connectTimeoutMS = 0, timeoutMS = 0, Proxy = NoProxy\<rparr>,
                    jar := Some DefaultJar\<rparr>,
          Some (Response (Some
            \<lparr>Transport = \<lparr>connectTimeoutMS = 0, timeoutMS = 0, Proxy = NoProxy\<rparr>,
             CheckRedirect = Synthesized True 10, Jar = Some DefaultJar,
             Request = \<lparr>Method = ''GET'', URL = ''http://x/y'',
                        Header = [''User-Agent'' \<mapsto> []], Body = NoBody, Cookie = []\<rparr>,
             SetCookies = []\<rparr>)),
          None) \<and>
   prepareTransport stubEnv
      (mergeOptions [Some defaultOptions, None, Some [OPT_PROXY \<mapsto> VString ''127.0.0.1:8080'']]) =
     Inr \<lparr>connectTimeoutMS = 0, timeoutMS = 0, Proxy = ProxyURL ''http://127.0.0.1:8080''\<rparr> \<and>
   (\<forall>option. hasOption option transportOptions) \<and>
   (\<forall>client option v. reuseTransport (WithOption client option v) = reuseTransport client)"
proof (intro conjI allI)
  show "Do stubEnv
      (WithOption
         (NewClient\<lparr>transport := Some \<lparr>connectTimeoutMS = 0, timeoutMS = 0, Proxy = NoProxy\<rparr>,
                    jar := Some DefaultJar\<rparr>)
         OPT_PROXY (VString ''127.0.0.1:8080''))
      ''GET'' ''http://x/y'' None NoBody =
     Inr (NewClient\<lparr>transport := Some \<lparr>connectTimeoutMS = 0, timeoutMS = 0, Proxy = NoProxy\<rparr>,
                    jar := Some DefaultJar\<rparr>,
          Some (Response (Some
            \<lparr>Transport = \<lparr>connectTimeoutMS = 0, timeoutMS = 0, Proxy = NoProxy\<rparr>,
             CheckRedirect = Synthesized True 10, Jar = Some DefaultJar,
             Request = \<lparr>Method = ''GET'', URL = ''http://x/y'',
                        Header = [''User-Agent'' \<mapsto> []], Body = NoBody, Cookie = []\<rparr>,
             SetCookies = []\<rparr>)),
          None)"
    by (simp add: Do_eval_defs)
  show "prepareTransport stubEnv
      (mergeOptions [Some defaultOptions, None, Some [OPT_PROXY \<mapsto> VString ''127.0.0.1:8080'']]) =
     Inr \<lparr>connectTimeoutMS = 0, timeoutMS = 0, Proxy = ProxyURL ''http://127.0.0.1:8080''\<rparr>"
    by (simp add: Do_eval_defs)
  show "hasOption option transportOptions" for option
    by (rule hasOption_transportOptions)
  show "reuseTransport (WithOption client option v) = reuseTransport client" for client option v
    by (rule WithOption_reuseTransport)
qed

text \<open>
  For the jar the two negations meet on the one-element list: the jar is rebuilt exactly
  when the one-time option is \<open>OPT_COOKIEJAR\<close>.
\<close>

lemma WithOption_COOKIEJAR_rebuilds_jar:
  "useJar env (WithOption client OPT_COOKIEJAR v) options =
     (case prepareJar env options of
        Inl err \<Rightarrow> Inl err
      | Inr j \<Rightarrow> Inr (j, WithOption client OPT_COOKIEJAR v))"
  by (simp add: useJar_def Let_def WithOption_reuseJar split: option.splits sum.splits)

section \<open>The default client\<close>

text \<open>
  C7. The default client of the free functions is to behave as one made by \<open>NewClient\<close>. The
  code departs from it: \<open>init\<close> takes \<open>new(Client)\<close>, whose two reuse flags are false, where
  \<open>NewClient\<close> sets them. The first request of the default client therefore caches neither
  its transport nor its jar (it leaves the client as \<open>NewClient\<close> makes one), while the same
  request on a client from \<open>NewClient\<close> caches both. The calls that follow show it: after
  \<open>Defaults\<close> with a timeout of 5000 ms, the second request of the default client goes
  through a new transport with that timeout, the second request of the other client through
  the transport cached by the first, without it.
\<close>

theorem default_client_differs_from_NewClient:
  "reuseTransport init = False \<and> reuseJar init = False \<and>
   reuseTransport NewClient = True \<and> reuseJar NewClient = True \<and>
   Do stubEnv init ''GET'' ''http://x/y'' None NoBody =
     Inr (NewClient,
          Some (Response (Some
            \<lparr>Transport = \<lparr>connectTimeoutMS = 0, timeoutMS = 0, Proxy = NoProxy\<rparr>,
             CheckRedirect = Synthesized True 10, Jar = Some DefaultJar,
             Request = \<lparr>Method = ''GET'', URL = ''http://x/y'',
                        Header = [''User-Agent'' \<mapsto> []], Body = NoBody, Cookie = []\<rparr>,
             SetCookies = []\<rparr>)),
          None) \<and>
   Do stubEnv NewClient ''GET'' ''http://x/y'' None NoBody =
     Inr (NewClient\<lparr>transport := Some \<lparr>connectTimeoutMS = 0, timeoutMS = 0, Proxy = NoProxy\<rparr>,
                    jar := Some DefaultJar\<rparr>,
          Some (Response (Some
            \<lparr>Transport = \<lparr>connectTimeoutMS = 0, timeoutMS = 0, Proxy = NoProxy\<rparr>,
             CheckRedirect = Synthesized True 10, Jar = Some DefaultJar,
             Request = \<lparr>Method = ''GET'', URL = ''http://x/y'',
                        Header = [''User-Agent'' \<mapsto> []], Body = NoBody, Cookie = []\<rparr>,
             SetCookies = []\<rparr>)),
          None) \<and>
   Do stubEnv (Defaults NewClient (Some [OPT_TIMEOUT_MS \<mapsto> VInt 5000]) None)
      ''GET'' ''http://x/y'' None NoBody =
     Inr (NewClient\<lparr>Options := Some [OPT_TIMEOUT_MS \<mapsto> VInt 5000],
                    transport :=
                      Some \<lparr>connectTimeoutMS = 5000, timeoutMS = 5000, Proxy = NoProxy\<rparr>,
                    jar := Some DefaultJar\<rparr>,
          Some (Response (Some
            \<lparr>Transport = \<lparr>connectTimeoutMS = 5000, timeoutMS = 5000, Proxy = NoProxy\<rparr>,
             CheckRedirect = Synthesized True 10, Jar = Some DefaultJar,
             Request = \<lparr>Method = ''GET'', URL = ''http://x/y'',
                        Header = [''User-Agent'' \<mapsto> []], Body = NoBody, Cookie = []\<rparr>,
             SetCookies = []\<rparr>)),
          None) \<and>
   Do stubEnv
      (Defaults
         (NewClient\<lparr>transport := Some \<lparr>connectTimeoutMS = 0, timeoutMS = 0, Proxy = NoProxy\<rparr>,
                    jar := Some DefaultJar\<rparr>)
         (Some [OPT_TIMEOUT_MS \<mapsto> VInt 5000]) None)
      ''GET'' ''http://x/y'' None NoBody =
     Inr (NewClient\<lparr>Options := Some [OPT_TIMEOUT_MS \<mapsto> VInt 5000],
                    transport := Some \<lparr>connectTimeoutMS = 0, timeoutMS = 0, Proxy = NoProxy\<rparr>,
                    jar := Some DefaultJar\<rparr>,
          Some (Response (Some
            \<lparr>Transport = \<lparr>connectTimeoutMS = 0, timeoutMS = 0, Proxy = NoProxy\<rparr>,
             CheckRedirect = Synthesized True 10, Jar = Some DefaultJar,
             Request = \<lparr>Method = ''GET'', URL = ''http://x/y'',
                        Header = [''User-Agent'' \<mapsto> []], Body = NoBody, Cookie = []\<rparr>,
             SetCookies = []\<rparr>)),
          None)"
proof (intro conjI)
  show "reuseTransport init = False" and "reuseJar init = False"
    by (simp_all add: init_def)
  show "reuseTransport NewClient = True" and "reuseJar NewClient = True"
    by (simp_all add: NewClient_def)
  show "Do stubEnv init ''GET'' ''http://x/y'' None NoBody =
     Inr (NewClient,
          Some (Response (Some
            \<lparr>Transport = \<lparr>connectTimeoutMS = 0, timeoutMS = 0, Proxy = NoProxy\<rparr>,
             CheckRedirect = Synthesized True 10, Jar = Some DefaultJar,
             Request = \<lparr>Method = ''GET'', URL = ''http://x/y'',
                        Header = [''User-Agent'' \<mapsto> []], Body = NoBody, Cookie = []\<rparr>,
             SetCookies = []\<rparr>)),
          None)"
    by (simp add: Do_eval_defs init_def)
qed (simp_all add: Do_eval_defs Defaults_def sless_numerals)

section \<open>Resetting the client\<close>








section \<open>Wrongly typed option values\<close>

lemma connectTimeoutOf_mistyped:
  "options OPT_CONNECTTIMEOUT_MS = Some v \<Longrightarrow> \<forall>n. v \<noteq> VInt n \<Longrightarrow>
     connectTimeoutOf options = Inl (Errorf ''OPT_CONNECTTIMEOUT_MS must be int'')"
  "options OPT_CONNECTTIMEOUT_MS = None \<Longrightarrow> options OPT_CONNECTTIMEOUT = Some v \<Longrightarrow>
     \<forall>n. v \<noteq> VInt n \<Longrightarrow>
     connectTimeoutOf options = Inl (Errorf ''OPT_CONNECTTIMEOUT must be int'')"
  by (cases v; simp add: connectTimeoutOf_def)+

lemma timeoutOf_mistyped:
  "options OPT_TIMEOUT_MS = Some v \<Longrightarrow> \<forall>n. v \<noteq> VInt n \<Longrightarrow>
     timeoutOf options = Inl (Errorf ''OPT_TIMEOUT_MS must be int'')"
  "options OPT_TIMEOUT_MS = None \<Longrightarrow> options OPT_TIMEOUT = Some v \<Longrightarrow>
     \<forall>n. v \<noteq> VInt n \<Longrightarrow>
     timeoutOf options = Inl (Errorf ''OPT_TIMEOUT must be int'')"
  by (cases v; simp add: timeoutOf_def)+

lemma proxyOf_mistyped:
  "options OPT_PROXY_FUNC = Some v \<Longrightarrow> \<forall>f. v \<noteq> VProxyFunc f \<Longrightarrow>
     proxyOf env options = Inl (Errorf ''OPT_PROXY_FUNC is not a desired function'')"
  "options OPT_PROXY_FUNC = None \<Longrightarrow> options OPT_PROXYTYPE = Some v \<Longrightarrow>
     \<forall>n. v \<noteq> VInt n \<Longrightarrow>
     proxyOf env options =
       Inl (Errorf ''OPT_PROXYTYPE must be int, and only PROXY_HTTP is currently supported'')"
  "options OPT_PROXY_FUNC = None \<Longrightarrow>
     options OPT_PROXYTYPE = None \<or> options OPT_PROXYTYPE = Some (VInt PROXY_HTTP) \<Longrightarrow>
     options OPT_PROXY = Some v \<Longrightarrow> \<forall>s. v \<noteq> VString s \<Longrightarrow>
     proxyOf env options = Inl (Errorf ''OPT_PROXY must be string'')"
  by (cases v; auto simp add: proxyOf_def)+

text \<open>
  C6, as amended. A value of the wrong dynamic type is reported by the three builders that
  check it. \<open>prepareTransport\<close> returns the error naming the option for a connect timeout, a
  timeout, a proxy function, a proxy type or a proxy of the wrong type, each where the source
  consults it (the seconds variant only when the milliseconds one is absent, the proxy type
  and the proxy only when no proxy function is given, and after the checks before it have
  passed); \<open>prepareRedirect\<close> does so for the policy override, follow-location and
  max-redirects, \<open>prepareJar\<close> for the cookie jar. \<open>prepareRequest\<close> reports nothing: a referer
  or user agent that is not a string is skipped, as if the option were absent.
\<close>

theorem mistyped_option_reported:
  "(options OPT_CONNECTTIMEOUT_MS = Some v \<and> (\<forall>n. v \<noteq> VInt n) \<longrightarrow>
      prepareTransport env options = Inl (Errorf ''OPT_CONNECTTIMEOUT_MS must be int'')) \<and>
   (options OPT_CONNECTTIMEOUT_MS = None \<and> options OPT_CONNECTTIMEOUT = Some v \<and>
    (\<forall>n. v \<noteq> VInt n) \<longrightarrow>
      prepareTransport env options = Inl (Errorf ''OPT_CONNECTTIMEOUT must be int'')) \<and>
   (connectTimeoutOf options = Inr c \<and> options OPT_TIMEOUT_MS = Some v \<and>
    (\<forall>n. v \<noteq> VInt n) \<longrightarrow>
      prepareTransport env options = Inl (Errorf ''OPT_TIMEOUT_MS must be int'')) \<and>
   (connectTimeoutOf options = Inr c \<and> options OPT_TIMEOUT_MS = None \<and>
    options OPT_TIMEOUT = Some v \<and> (\<forall>n. v \<noteq> VInt n) \<longrightarrow>
      prepareTransport env options = Inl (Errorf ''OPT_TIMEOUT must be int'')) \<and>
   (connectTimeoutOf options = Inr c \<and> timeoutOf options = Inr t \<and>
    options OPT_PROXY_FUNC = Some v \<and> (\<forall>f. v \<noteq> VProxyFunc f) \<longrightarrow>
      prepareTransport env options =
        Inl (Errorf ''OPT_PROXY_FUNC is not a desired function'')) \<and>
   (connectTimeoutOf options = Inr c \<and> timeoutOf options = Inr t \<and>
    options OPT_PROXY_FUNC = None \<and> options OPT_PROXYTYPE = Some v \<and>
    (\<forall>n. v \<noteq> VInt n) \<longrightarrow>
      prepareTransport env options =
        Inl (Errorf ''OPT_PROXYTYPE must be int, and only PROXY_HTTP is currently supported'')) \<and>
   (connectTimeoutOf options = Inr c \<and> timeoutOf options = Inr t \<and>
    options OPT_PROXY_FUNC = None \<and>
    (options OPT_PROXYTYPE = None \<or> options OPT_PROXYTYPE = Some (VInt PROXY_HTTP)) \<and>
    options OPT_PROXY = Some v \<and> (\<forall>s. v \<noteq> VString s) \<longrightarrow>
      prepareTransport env options = Inl (Errorf ''OPT_PROXY must be string'')) \<and>
   (options OPT_REDIRECT_POLICY = Some v \<and> (\<forall>f. v \<noteq> VRedirectPolicy f) \<longrightarrow>
      prepareRedirect options = Inl (Errorf ''OPT_REDIRECT_POLICY is not a desired function'')) \<and>
   (options OPT_REDIRECT_POLICY = None \<and> options OPT_FOLLOWLOCATION = Some v \<and>
    (\<forall>b. v \<noteq> VBool b) \<longrightarrow>
      prepareRedirect options = Inl (Errorf ''OPT_FOLLOWLOCATION must be bool'')) \<and>
   (options OPT_REDIRECT_POLICY = None \<and>
    (options OPT_FOLLOWLOCATION = None \<or> (\<exists>b. options OPT_FOLLOWLOCATION = Some (VBool b))) \<and>
    options OPT_MAXREDIRS = Some v \<and> (\<forall>n. v \<noteq> VInt n) \<longrightarrow>
      prepareRedirect options = Inl (Errorf ''OPT_MAXREDIRS must be int'')) \<and>
   (options OPT_COOKIEJAR = Some v \<and> (\<forall>b. v \<noteq> VBool b) \<and> (\<forall>j. v \<noteq> VJar j) \<longrightarrow>
      prepareJar env options = Inl (Errorf ''invalid cookiejar'')) \<and>
   (options OPT_REFERER = Some v \<and> (\<forall>s. v \<noteq> VString s) \<longrightarrow>
      prepareRequest env method url hdrs bdy options =
        prepareRequest env method url hdrs bdy (options(OPT_REFERER := None))) \<and>
   (options OPT_USERAGENT = Some v \<and> (\<forall>s. v \<noteq> VString s) \<longrightarrow>
      prepareRequest env method url hdrs bdy options =
        prepareRequest env method url hdrs bdy (options(OPT_USERAGENT := None)))"
proof (intro conjI impI; elim conjE)
  assume "options OPT_CONNECTTIMEOUT_MS = Some v" "\<forall>n. v \<noteq> VInt n"
  then show "prepareTransport env options = Inl (Errorf ''OPT_CONNECTTIMEOUT_MS must be int'')"
    by (simp add: prepareTransport_def connectTimeoutOf_mistyped)
next
  assume "options OPT_CONNECTTIMEOUT_MS = None" "options OPT_CONNECTTIMEOUT = Some v"
    "\<forall>n. v \<noteq> VInt n"
  then show "prepareTransport env options = Inl (Errorf ''OPT_CONNECTTIMEOUT must be int'')"
    by (simp add: prepareTransport_def connectTimeoutOf_mistyped)
next
  assume "connectTimeoutOf options = Inr c" "options OPT_TIMEOUT_MS = Some v" "\<forall>n. v \<noteq> VInt n"
  then show "prepareTransport env options = Inl (Errorf ''OPT_TIMEOUT_MS must be int'')"
    by (simp add: prepareTransport_def timeoutOf_mistyped)
next
  assume "connectTimeoutOf options = Inr c" "options OPT_TIMEOUT_MS = None"
    "options OPT_TIMEOUT = Some v" "\<forall>n. v \<noteq> VInt n"
  then show "prepareTransport env options = Inl (Errorf ''OPT_TIMEOUT must be int'')"
    by (simp add: prepareTransport_def timeoutOf_mistyped)
next
  assume "connectTimeoutOf options = Inr c" "timeoutOf options = Inr t"
    "options OPT_PROXY_FUNC = Some v" "\<forall>f. v \<noteq> VProxyFunc f"
  then show "prepareTransport env options =
        Inl (Errorf ''OPT_PROXY_FUNC is not a desired function'')"
    by (simp add: prepareTransport_def proxyOf_mistyped Let_def)
next
  assume "connectTimeoutOf options = Inr c" "timeoutOf options = Inr t"
    "options OPT_PROXY_FUNC = None" "options OPT_PROXYTYPE = Some v" "\<forall>n. v \<noteq> VInt n"
  then show "prepareTransport env options =
        Inl (Errorf ''OPT_PROXYTYPE must be int, and only PROXY_HTTP is currently supported'')"
    by (simp add: prepareTransport_def proxyOf_mistyped Let_def)
next
  assume "connectTimeoutOf options = Inr c" "timeoutOf options = Inr t"
    "options OPT_PROXY_FUNC = None"
    "options OPT_PROXYTYPE = None \<or> options OPT_PROXYTYPE = Some (VInt PROXY_HTTP)"
    "options OPT_PROXY = Some v" "\<forall>s. v \<noteq> VString s"
  then show "prepareTransport env options = Inl (Errorf ''OPT_PROXY must be string'')"
    by (simp add: prepareTransport_def proxyOf_mistyped Let_def)
next
  assume "options OPT_REDIRECT_POLICY = Some v" "\<forall>f. v \<noteq> VRedirectPolicy f"
  then show "prepareRedirect options =
      Inl (Errorf ''OPT_REDIRECT_POLICY is not a desired function'')"
    by (cases v) (auto simp add: prepareRedirect_def)
next
  assume "options OPT_REDIRECT_POLICY = None" "options OPT_FOLLOWLOCATION = Some v"
    "\<forall>b. v \<noteq> VBool b"
  then show "prepareRedirect options = Inl (Errorf ''OPT_FOLLOWLOCATION must be bool'')"
    by (cases v) (auto simp add: prepareRedirect_def)
next
  assume "options OPT_REDIRECT_POLICY = None"
    "options OPT_FOLLOWLOCATION = None \<or> (\<exists>b. options OPT_FOLLOWLOCATION = Some (VBool b))"
    "options OPT_MAXREDIRS = Some v" "\<forall>n. v \<noteq> VInt n"
  then show "prepareRedirect options = Inl (Errorf ''OPT_MAXREDIRS must be int'')"
    by (cases v) (auto simp add: prepareRedirect_def)
next
  assume "options OPT_COOKIEJAR = Some v" "\<forall>b. v \<noteq> VBool b" "\<forall>j. v \<noteq> VJar j"
  then show "prepareJar env options = Inl (Errorf ''invalid cookiejar'')"
    by (cases v) (auto simp add: prepareJar_def)
next
  have "OPT_USERAGENT \<noteq> OPT_REFERER" by (simp add: opt_defs)
  moreover assume "options OPT_REFERER = Some v" "\<forall>s. v \<noteq> VString s"
  ultimately show "prepareRequest env method url hdrs bdy options =
        prepareRequest env method url hdrs bdy (options(OPT_REFERER := None))"
    by (cases v; cases "http_NewRequest env method url")
      (simp_all add: prepareRequest_def Let_def)
next
  have "OPT_REFERER \<noteq> OPT_USERAGENT" by (simp add: opt_defs)
  moreover assume "options OPT_USERAGENT = Some v" "\<forall>s. v \<noteq> VString s"
  ultimately show "prepareRequest env method url hdrs bdy options =
        prepareRequest env method url hdrs bdy (options(OPT_USERAGENT := None))"
    by (cases v; cases "http_NewRequest env method url")
      (simp_all add: prepareRequest_def Let_def)
qed

theorem mistyped_option_reported_witness:
  "prepareTransport stubEnv [OPT_TIMEOUT_MS \<mapsto> VString ''5s''] =
     Inl (Errorf ''OPT_TIMEOUT_MS must be int'') \<and>
   prepareRedirect [OPT_MAXREDIRS \<mapsto> VBool True] = Inl (Errorf ''OPT_MAXREDIRS must be int'') \<and>
   prepareJar stubEnv [OPT_COOKIEJAR \<mapsto> VInt 1] = Inl (Errorf ''invalid cookiejar'')"
proof -
  have c: "connectTimeoutOf [OPT_TIMEOUT_MS \<mapsto> VString ''5s''] = Inr 0"
    by (simp add: connectTimeoutOf_def opt_defs)
  from c mistyped_option_reported [of "[OPT_TIMEOUT_MS \<mapsto> VString ''5s'']" "VString ''5s''" stubEnv 0]
  have 1: "prepareTransport stubEnv [OPT_TIMEOUT_MS \<mapsto> VString ''5s''] =
     Inl (Errorf ''OPT_TIMEOUT_MS must be int'')"
    by simp
  from mistyped_option_reported [of "[OPT_MAXREDIRS \<mapsto> VBool True]" "VBool True"]
  have 2: "prepareRedirect [OPT_MAXREDIRS \<mapsto> VBool True] = Inl (Errorf ''OPT_MAXREDIRS must be int'')"
    by (simp add: opt_defs)
  from mistyped_option_reported [of "[OPT_COOKIEJAR \<mapsto> VInt 1]" "VInt 1" stubEnv]
  have 3: "prepareJar stubEnv [OPT_COOKIEJAR \<mapsto> VInt 1] = Inl (Errorf ''invalid cookiejar'')"
    by simp
  from 1 2 3 show ?thesis by simp
qed

text \<open>
  C6 as stated fails for the referer: with the one-time option \<open>OPT_REFERER\<close> set to an
  int, \<open>prepareRequest\<close> returns a request without a \<open>Referer\<close> header and no error, and the
  whole \<open>Do\<close> succeeds.
\<close>

theorem mistyped_referer_ignored_counterexample:
  "prepareRequest stubEnv ''GET'' ''http://x/y'' Map.empty NoBody [OPT_REFERER \<mapsto> VInt 5] =
     Inr \<lparr>Method = ''GET'', URL = ''http://x/y'', Header = Map.empty, Body = NoBody,
          Cookie = []\<rparr> \<and>
   Do stubEnv (WithOption NewClient OPT_REFERER (VInt 5)) ''GET'' ''http://x/y'' None NoBody =
     Inr (NewClient\<lparr>transport := Some \<lparr>connectTimeoutMS = 0, timeoutMS = 0, Proxy = NoProxy\<rparr>,
                    jar := Some DefaultJar\<rparr>,
          Some (Response (Some
            \<lparr>Transport = \<lparr>connectTimeoutMS = 0, timeoutMS = 0, Proxy = NoProxy\<rparr>,
             CheckRedirect = Synthesized True 10, Jar = Some DefaultJar,
             Request = \<lparr>Method = ''GET'', URL = ''http://x/y'',
                        Header = [''User-Agent'' \<mapsto> []], Body = NoBody, Cookie = []\<rparr>,
             SetCookies = []\<rparr>)),
          None)"
  by (simp add: Do_eval_defs)

section \<open>Building the query\<close>

lemma strings_Contains_single: "strings_Contains s [c] = (c \<in> set s)"
  by (induction s) auto

lemma strings_HasSuffix_single: "strings_HasSuffix s [c] = (s \<noteq> [] \<and> last s = c)"
proof (cases s rule: rev_cases)
  case Nil
  then show ?thesis by (simp add: strings_HasSuffix_def)
next
  case (snoc ys y)
  then show ?thesis by (auto simp: strings_HasSuffix_def)
qed

text \<open>
  C8, as amended. For every URL and non-empty parameter set, \<open>addQuery\<close> appends the encoded
  parameters after inserting \<open>?\<close> when the URL contains none, and otherwise after inserting
  \<open>&\<close> unless the URL already ends in \<open>?\<close> or \<open>&\<close> (then nothing is inserted); with an empty
  parameter set the URL is returned unchanged. \<open>addQuery("http://x/y", {a:1})\<close> is
  \<open>"http://x/y?a=1"\<close> and \<open>addQuery("http://x/y?b=2", {a:1})\<close> is \<open>"http://x/y?b=2&a=1"\<close>.
\<close>

theorem addQuery_separator:
  "(params \<noteq> [] \<and> CHR ''?'' \<notin> set url \<longrightarrow>
      addQuery url params = url @ ''?'' @ Encode params) \<and>
   (params \<noteq> [] \<and> CHR ''?'' \<in> set url \<and> last url \<noteq> CHR ''?'' \<and> last url \<noteq> CHR ''&'' \<longrightarrow>
      addQuery url params = url @ ''&'' @ Encode params) \<and>
   (params \<noteq> [] \<and> CHR ''?'' \<in> set url \<and> (last url = CHR ''?'' \<or> last url = CHR ''&'') \<longrightarrow>
      addQuery url params = url @ Encode params) \<and>
   addQuery url [] = url \<and>
   addQuery ''http://x/y'' [(''a'', [''1''])] = ''http://x/y?a=1'' \<and>
   addQuery ''http://x/y?b=2'' [(''a'', [''1''])] = ''http://x/y?b=2&a=1''"
proof (intro conjI impI)
  assume "params \<noteq> [] \<and> CHR ''?'' \<notin> set url"
  then show "addQuery url params = url @ ''?'' @ Encode params"
    by (simp add: addQuery_def Let_def strings_Contains_single strings_HasSuffix_single)
next
  assume a: "params \<noteq> [] \<and> CHR ''?'' \<in> set url \<and> last url \<noteq> CHR ''?'' \<and> last url \<noteq> CHR ''&''"
  then show "addQuery url params = url @ ''&'' @ Encode params"
    by (simp add: addQuery_def Let_def strings_Contains_single strings_HasSuffix_single)
next
  assume a: "params \<noteq> [] \<and> CHR ''?'' \<in> set url \<and> (last url = CHR ''?'' \<or> last url = CHR ''&'')"
  then have "url \<noteq> []" by auto
  with a show "addQuery url params = url @ Encode params"
    by (auto simp: addQuery_def Let_def strings_Contains_single strings_HasSuffix_single)
next
  show "addQuery url [] = url"
    by (simp add: addQuery_def)
next
  show "addQuery ''http://x/y'' [(''a'', [''1''])] = ''http://x/y?a=1''"
    by (simp add: addQuery_def Let_def strings_HasSuffix_def Encode_def QueryEscape_def escapeByte_def shouldEscape_def)
next
  show "addQuery ''http://x/y?b=2'' [(''a'', [''1''])] = ''http://x/y?b=2&a=1''"
    by (simp add: addQuery_def Let_def strings_HasSuffix_def Encode_def QueryEscape_def escapeByte_def shouldEscape_def)
qed

theorem addQuery_separator_witness:
  "addQuery ''http://h/p?q=1'' [(''k'', [''v''])] =
     ''http://h/p?q=1'' @ ''&'' @ Encode [(''k'', [''v''])] \<and>
   addQuery ''http://h/p'' [(''k'', [''v''])] = ''http://h/p'' @ ''?'' @ Encode [(''k'', [''v''])] \<and>
   addQuery ''http://h/p?'' [(''k'', [''v''])] = ''http://h/p?'' @ Encode [(''k'', [''v''])]"
  using addQuery_separator [of "[(''k'', [''v''])]" "''http://h/p?q=1''"]
    addQuery_separator [of "[(''k'', [''v''])]" "''http://h/p''"]
    addQuery_separator [of "[(''k'', [''v''])]" "''http://h/p?''"]
  by simp

text \<open>
  C8 as stated fails on a URL that has a query and ends in \<open>&\<close>: no \<open>&\<close> is inserted.
\<close>

theorem addQuery_trailing_separator_counterexample:
  "addQuery ''http://x/y?b=2&'' [(''a'', [''1''])] = ''http://x/y?b=2&a=1'' \<and>
   addQuery ''http://x/y?b=2&'' [(''a'', [''1''])] \<noteq>
     ''http://x/y?b=2&'' @ ''&'' @ Encode [(''a'', [''1''])]"
  by (simp add: addQuery_def Let_def strings_HasSuffix_def Encode_def QueryEscape_def
      escapeByte_def shouldEscape_def)

section \<open>Posting parameters\<close>

text \<open>
  On parameter sets whose names are all non-empty \<open>Post\<close> routes as intended: to
  \<open>PostMultipart\<close> when some name begins with \<open>@\<close>, and otherwise to a \<open>POST\<close> with the form
  content type and the encoded parameters as body.
\<close>

lemma checkParamFile_no_empty:
  "\<forall>(n, vs) \<in> set params. n \<noteq> [] \<Longrightarrow>
     checkParamFile params = Inr (\<exists>(n, vs) \<in> set params. hd n = CHR ''@'')"
  by (induction params) (auto split: list.splits)

lemma Post_routing:
  assumes "\<forall>(n, vs) \<in> set params. n \<noteq> []"
  shows "Post env client url params =
     (if \<exists>(n, vs) \<in> set params. hd n = CHR ''@''
      then PostMultipart env client url params
      else Do env client ''POST'' url
             (Some [''Content-Type'' \<mapsto> ''application/x-www-form-urlencoded''])
             (StringBody (Encode params)))"
  by (simp add: Post_def checkParamFile_no_empty [OF assms])

text \<open>
  C9. \<open>Post\<close> is to send a parameter set with no \<open>@\<close> name as a URL-encoded form. The code
  departs from it on an empty name: \<open>checkParamFile\<close> indexes the first byte of every name
  it visits, so for the parameter set with the single name \<open>""\<close> \<open>Post\<close> panics instead of
  sending the form.
\<close>

theorem Post_empty_name_panics:
  "checkParamFile [('''', [''x''])] = Inl IndexOutOfRange \<and>
   Post stubEnv NewClient ''http://x/y'' [('''', [''x''])] = Inl IndexOutOfRange"
  by (simp add: Post_def)

lemma checkParamFile_no_at:
  "('''', vs) \<in> set params \<Longrightarrow> \<forall>(n, ws) \<in> set params. n = [] \<or> hd n \<noteq> CHR ''@'' \<Longrightarrow>
     checkParamFile params = Inl IndexOutOfRange"
  by (induction params) (auto split: list.splits)

lemma writeParams_no_at:
  "('''', vs) \<in> set params \<Longrightarrow> \<forall>(n, ws) \<in> set params. n = [] \<or> hd n \<noteq> CHR ''@'' \<Longrightarrow>
     writeParams env writer params = Inl IndexOutOfRange"
  by (induction params arbitrary: writer) (auto split: list.splits)

lemma writeParams_empty_name:
  "('''', vs) \<in> set params \<Longrightarrow>
     writeParams env writer params = Inl IndexOutOfRange \<or>
     (\<exists>err name v ws writer'. (CHR ''@'' # name, v # ws) \<in> set params \<and>
        addFormFile env writer' name v = Inl err \<and>
        writeParams env writer params = Inr (Inl err))"
proof (induction params arbitrary: writer)
  case Nil
  then show ?case by simp
next
  case (Cons p params)
  obtain n ws where p: "p = (n, ws)" by (cases p)
  show ?case
  proof (cases n)
    case Nil
    with p show ?thesis by simp
  next
    case (Cons c cs)
    with p Cons.prems have mem: "('''', vs) \<in> set params" by auto
    show ?thesis
    proof (cases "c = CHR ''@''")
      case False
      with p Cons Cons.IH [OF mem, of "writer @ map (FormField n) ws"] show ?thesis
        by auto
    next
      case True
      show ?thesis
      proof (cases ws)
        case Nil
        with p Cons True show ?thesis by simp
      next
        case (Cons v ws')
        show ?thesis
        proof (cases "addFormFile env writer cs v")
          case (Inl err)
          with p \<open>n = c # cs\<close> True Cons show ?thesis
            by (intro disjI2 exI [of _ err] exI [of _ cs] exI [of _ v] exI [of _ ws']
                exI [of _ writer]) simp
        next
          case (Inr writer1)
          with p \<open>n = c # cs\<close> True Cons Cons.IH [OF mem, of writer1] show ?thesis
            by auto
        qed
      qed
    qed
  qed
qed

lemma checkParamFile_panic:
  "checkParamFile params = Inl p \<Longrightarrow> p = IndexOutOfRange"
  by (induction params) (auto split: list.splits if_splits)

lemma checkParamFile_empty_name:
  "('''', vs) \<in> set params \<Longrightarrow> checkParamFile params \<noteq> Inr False"
  by (induction params) (auto split: list.splits if_splits)

lemma PostMultipart_empty_name:
  assumes "('''', vs) \<in> set params"
  shows "PostMultipart env client url params = Inl IndexOutOfRange \<or>
     (\<exists>err name v ws writer'. (CHR ''@'' # name, v # ws) \<in> set params \<and>
        addFormFile env writer' name v = Inl err \<and>
        PostMultipart env client url params = Inr (client, None, Some err))"
  using writeParams_empty_name [OF assms, of env "[]"]
proof (elim disjE exE conjE)
  assume "writeParams env [] params = Inl IndexOutOfRange"
  then show ?thesis by (simp add: PostMultipart_def)
next
  fix err name v ws writer'
  assume m: "(CHR ''@'' # name, v # ws) \<in> set params"
    and f: "addFormFile env writer' name v = Inl err"
    and w: "writeParams env [] params = Inr (Inl err)"
  from w have "PostMultipart env client url params = Inr (client, None, Some err)"
    by (simp add: PostMultipart_def)
  with m f show ?thesis by blast
qed

text \<open>
  C10, as amended. For every parameter set that contains the empty name, \<open>Post\<close> and
  \<open>PostMultipart\<close> never send the request: they panic with an index out of range, or return
  the error of attaching an \<open>@\<close> file that the range visits before the empty name. When no
  name of the set begins with \<open>@\<close>, both panic.
\<close>

theorem empty_name_panics:
  "(('''', vs) \<in> set params \<and> (\<forall>(n, ws) \<in> set params. n = [] \<or> hd n \<noteq> CHR ''@'') \<longrightarrow>
      Post env client url params = Inl IndexOutOfRange \<and>
      PostMultipart env client url params = Inl IndexOutOfRange) \<and>
   (('''', vs) \<in> set params \<longrightarrow>
      (PostMultipart env client url params = Inl IndexOutOfRange \<or>
       (\<exists>err name v ws writer'. (CHR ''@'' # name, v # ws) \<in> set params \<and>
          addFormFile env writer' name v = Inl err \<and>
          PostMultipart env client url params = Inr (client, None, Some err))) \<and>
      (Post env client url params = Inl IndexOutOfRange \<or>
       (\<exists>err name v ws writer'. (CHR ''@'' # name, v # ws) \<in> set params \<and>
          addFormFile env writer' name v = Inl err \<and>
          Post env client url params = Inr (client, None, Some err))))"
proof (intro conjI impI)
  assume a: "('''', vs) \<in> set params \<and> (\<forall>(n, ws) \<in> set params. n = [] \<or> hd n \<noteq> CHR ''@'')"
  then have "checkParamFile params = Inl IndexOutOfRange"
    by (auto intro: checkParamFile_no_at)
  then show "Post env client url params = Inl IndexOutOfRange"
    by (simp add: Post_def)
  from a have "writeParams env [] params = Inl IndexOutOfRange"
    by (auto intro: writeParams_no_at)
  then show "PostMultipart env client url params = Inl IndexOutOfRange"
    by (simp add: PostMultipart_def)
next
  assume a: "('''', vs) \<in> set params"
  then show pm: "PostMultipart env client url params = Inl IndexOutOfRange \<or>
       (\<exists>err name v ws writer'. (CHR ''@'' # name, v # ws) \<in> set params \<and>
          addFormFile env writer' name v = Inl err \<and>
          PostMultipart env client url params = Inr (client, None, Some err))"
    by (rule PostMultipart_empty_name)
  show "Post env client url params = Inl IndexOutOfRange \<or>
       (\<exists>err name v ws writer'. (CHR ''@'' # name, v # ws) \<in> set params \<and>
          addFormFile env writer' name v = Inl err \<and>
          Post env client url params = Inr (client, None, Some err))"
  proof (cases "checkParamFile params")
    case (Inl p)
    then show ?thesis
      by (simp add: Post_def checkParamFile_panic [OF Inl])
  next
    case (Inr isFile)
    with checkParamFile_empty_name [OF a] have "isFile" by auto
    with Inr have "Post env client url params = PostMultipart env client url params"
      by (simp add: Post_def)
    with pm show ?thesis by simp
  qed
qed

theorem empty_name_panics_witness:
  "Post stubEnv NewClient ''http://x/y'' [(''a'', [''1'']), ('''', [''x''])] = Inl IndexOutOfRange \<and>
   PostMultipart stubEnv NewClient ''http://x/y'' [(''a'', [''1'']), ('''', [''x''])] =
     Inl IndexOutOfRange"
  using empty_name_panics [of "[''x'']" "[(''a'', [''1'']), ('''', [''x''])]" stubEnv NewClient
      "''http://x/y''"]
  by simp

text \<open>
  C10 as stated fails when the range visits a file entry first and the file cannot be
  opened: the error is returned before the empty name is indexed.
\<close>

theorem file_error_before_empty_name_counterexample:
  "PostMultipart stubEnv NewClient ''http://x/y'' [(''@f'', [''/missing'']), ('''', [''x''])] =
     Inr (NewClient, None, Some (LibError ''open: no such file or directory'')) \<and>
   Post stubEnv NewClient ''http://x/y'' [(''@f'', [''/missing'']), ('''', [''x''])] =
     Inr (NewClient, None, Some (LibError ''open: no such file or directory''))"
  by (simp add: Post_def PostMultipart_def addFormFile_def stubEnv_def)

end
